theory Spec2Isabelle
  imports Main
begin

section \<open>The bootstrap of the dashboard UI: \<^verbatim>\<open>selfdrive/ui/main.cc\<close>\<close>

text \<open>
  The source is one function, \<^verbatim>\<open>main\<close>, a straight sequence of calls into the
  windowing toolkit and into three helpers of the repository
  (\<^verbatim>\<open>setQtSurfaceFormat\<close>, \<^verbatim>\<open>Hardware::EON\<close>, \<^verbatim>\<open>setMainWindow\<close>).
  The embedding passes the process-wide state explicitly. Each call of the source is one
  definition below that updates the part of the state the call writes and appends one
  entry to a history of calls, so that ordering properties can be read off the history.
  What the outside world answers (the hardware check, the file system, whether the
  translation catalogue loads, the exit code of the event loop) is an argument of
  \<open>main\<close>, the record \<open>environment\<close>.
\<close>

subsection \<open>Data\<close>

datatype certificate = Certificate string

text \<open>What opening a path gives: no such file, a file that cannot be opened, or its bytes.\<close>

datatype file_status = Missing | Unreadable | Readable string

datatype application_attribute =
  AA_ShareOpenGLContexts | AA_UseOpenGLES | AA_EnableHighDpiScaling

text \<open>
  \<^verbatim>\<open>QSslConfiguration\<close>: the source touches the list of CA certificates only; every
  other setting of the configuration is kept as one opaque component.
\<close>

record 'o ssl_configuration =
  caCertificates :: "certificate list"
  otherSettings :: 'o

text \<open>
  \<^verbatim>\<open>QTranslator\<close>: a fresh translator is empty; a successful \<^verbatim>\<open>load\<close> gives it
  the catalogue, named here by the file name and directory it was loaded from.
\<close>

record translator =
  catalogue :: "(string \<times> string) option"

datatype widget = MainWindow

text \<open>\<^verbatim>\<open>QApplication\<close>: the arguments it was built from, its translators, its event filters.\<close>

record application =
  arguments :: "string list"
  translators :: "translator list"
  eventFilters :: "widget list"

text \<open>One entry of the history for each call the source makes, in the order of the calls.\<close>

datatype event =
  SurfaceFormatSet
| AttributeSet application_attribute
| DefaultConfigurationRead
| CertificatesRead string
| DefaultConfigurationSet
| ApplicationConstructed "string list"
| TranslatorLoad string string
| DebugMessage string
| TranslatorInstalled
| MainWindowConstructed
| MainWindowSet
| EventFilterInstalled
| EventLoopEntered

record 'o process_state =
  surfaceFormatSet :: bool
  attributes :: "application_attribute set"
  defaultConfiguration :: "'o ssl_configuration"
  qApp :: "application option"
  mainWindow :: "widget option"
  debugOutput :: "string list"
  history :: "event list"

record environment =
  hardware_EON :: bool
  fileSystem :: "string \<Rightarrow> file_status"
  fromData :: "string \<Rightarrow> certificate list"
  catalogueLoads :: "string \<Rightarrow> string \<Rightarrow> bool"
  systemLocale :: string
  eventLoopResult :: "int option"

subsection \<open>The calls\<close>

definition record_call :: "event \<Rightarrow> 'o process_state \<Rightarrow> 'o process_state" where
  "record_call e s = s\<lparr>history := history s @ [e]\<rparr>"

text \<open>
  Modelled from the spec: \<^verbatim>\<open>setQtSurfaceFormat\<close> (declared in
  \<^verbatim>\<open>selfdrive/ui/qt/util.h\<close>, its body is not in the source under study). The spec:
  it has no inputs, no return value and no failure path, and is a pure write of the global
  defaults of rendering surfaces.
\<close>

definition setQtSurfaceFormat :: "'o process_state \<Rightarrow> 'o process_state" where
  "setQtSurfaceFormat s = record_call SurfaceFormatSet (s\<lparr>surfaceFormatSet := True\<rparr>)"

text \<open>\<^verbatim>\<open>QApplication::setAttribute(attribute)\<close>, with its default \<^verbatim>\<open>on = true\<close>.\<close>

definition setAttribute :: "application_attribute \<Rightarrow> 'o process_state \<Rightarrow> 'o process_state" where
  "setAttribute attr s = record_call (AttributeSet attr) (s\<lparr>attributes := insert attr (attributes s)\<rparr>)"

text \<open>\<^verbatim>\<open>QSslConfiguration::defaultConfiguration()\<close>: a copy of the process-wide default.\<close>

definition getDefaultConfiguration :: "'o process_state \<Rightarrow> 'o ssl_configuration \<times> 'o process_state" where
  "getDefaultConfiguration s = (defaultConfiguration s, record_call DefaultConfigurationRead s)"

text \<open>
  \<^verbatim>\<open>QSslCertificate::fromPath(path)\<close> for a plain path: the certificates parsed from
  the file, and the empty list when there is no file or it cannot be opened. The call
  returns a list in every case; it has no error result.
\<close>

definition fromPath :: "environment \<Rightarrow> string \<Rightarrow> certificate list" where
  "fromPath env path =
     (case fileSystem env path of
        Readable bytes \<Rightarrow> fromData env bytes
      | Missing \<Rightarrow> []
      | Unreadable \<Rightarrow> [])"

definition setCaCertificates :: "certificate list \<Rightarrow> 'o ssl_configuration \<Rightarrow> 'o ssl_configuration" where
  "setCaCertificates certs ssl = ssl\<lparr>caCertificates := certs\<rparr>"

definition setDefaultConfiguration :: "'o ssl_configuration \<Rightarrow> 'o process_state \<Rightarrow> 'o process_state" where
  "setDefaultConfiguration ssl s = record_call DefaultConfigurationSet (s\<lparr>defaultConfiguration := ssl\<rparr>)"

text \<open>\<^verbatim>\<open>QApplication a(argc, argv)\<close>: the application object becomes the process-wide instance.\<close>

definition QApplication :: "string list \<Rightarrow> 'o process_state \<Rightarrow> 'o process_state" where
  "QApplication argv s =
     record_call (ApplicationConstructed argv)
       (s\<lparr>qApp := Some \<lparr>arguments = argv, translators = [], eventFilters = []\<rparr>\<rparr>)"

definition QTranslator :: translator where
  "QTranslator = \<lparr>catalogue = None\<rparr>"

text \<open>
  \<^verbatim>\<open>translator.load(filename, directory)\<close>: the result says whether the catalogue
  was loaded; a failed load leaves the translator empty.
\<close>

definition load :: "environment \<Rightarrow> string \<Rightarrow> string \<Rightarrow> translator \<Rightarrow> 'o process_state
    \<Rightarrow> bool \<times> translator \<times> 'o process_state" where
  "load env filename directory tr s =
     (if catalogueLoads env filename directory
      then (True, tr\<lparr>catalogue := Some (filename, directory)\<rparr>, record_call (TranslatorLoad filename directory) s)
      else (False, tr\<lparr>catalogue := None\<rparr>, record_call (TranslatorLoad filename directory) s))"

definition qDebug :: "string \<Rightarrow> 'o process_state \<Rightarrow> 'o process_state" where
  "qDebug msg s = record_call (DebugMessage msg) (s\<lparr>debugOutput := debugOutput s @ [msg]\<rparr>)"

text \<open>
  \<^verbatim>\<open>a.installTranslator(&translator)\<close>: the translator is put in front of the
  application's list of translators, whether it is empty or not.
\<close>

definition installTranslator :: "translator \<Rightarrow> 'o process_state \<Rightarrow> 'o process_state" where
  "installTranslator tr s =
     record_call TranslatorInstalled
       (s\<lparr>qApp := map_option (\<lambda>a. a\<lparr>translators := tr # translators a\<rparr>) (qApp s)\<rparr>)"

text \<open>\<^verbatim>\<open>MainWindow w\<close>: the window is a black box; only its construction is recorded.\<close>

definition MainWindow_new :: "'o process_state \<Rightarrow> widget \<times> 'o process_state" where
  "MainWindow_new s = (MainWindow, record_call MainWindowConstructed s)"

text \<open>
  Modelled from the spec: \<^verbatim>\<open>setMainWindow\<close> (declared in
  \<^verbatim>\<open>selfdrive/ui/qt/qt_window.h\<close>, its body is not in the source under study). The
  spec: it registers a globally reachable reference to the window as the process-wide
  current main window.
\<close>

definition setMainWindow :: "widget \<Rightarrow> 'o process_state \<Rightarrow> 'o process_state" where
  "setMainWindow w s = record_call MainWindowSet (s\<lparr>mainWindow := Some w\<rparr>)"

text \<open>\<^verbatim>\<open>a.installEventFilter(&w)\<close>: the object is moved to the front of the filters.\<close>

definition installEventFilter :: "widget \<Rightarrow> 'o process_state \<Rightarrow> 'o process_state" where
  "installEventFilter w s =
     record_call EventFilterInstalled
       (s\<lparr>qApp := map_option (\<lambda>a. a\<lparr>eventFilters := w # removeAll w (eventFilters a)\<rparr>) (qApp s)\<rparr>)"

text \<open>
  \<^verbatim>\<open>a.exec()\<close>: the blocking event loop. Its result is the exit code, or \<open>None\<close>
  when the loop never returns. The state returned with it is the state in which the loop
  was entered.
\<close>

definition exec :: "environment \<Rightarrow> 'o process_state \<Rightarrow> 'o process_state \<times> int option" where
  "exec env s = (record_call EventLoopEntered s, eventLoopResult env)"

subsection \<open>\<^verbatim>\<open>main\<close>\<close>

text \<open>Lines 12 to 17: the block guarded by \<^verbatim>\<open>Hardware::EON()\<close>.\<close>

definition hardware_block :: "environment \<Rightarrow> 'o process_state \<Rightarrow> 'o process_state" where
  "hardware_block env s =
     (if hardware_EON env then
        (let s1 = setAttribute AA_ShareOpenGLContexts s;
             (ssl, s2) = getDefaultConfiguration s1;
             s3 = record_call (CertificatesRead ''/usr/etc/tls/cert.pem'') s2;
             ssl' = setCaCertificates (fromPath env ''/usr/etc/tls/cert.pem'') ssl
         in setDefaultConfiguration ssl' s3)
      else s)"

text \<open>Lines 21 to 25: the translator is loaded, a failure is logged, the translator is installed.\<close>

definition translation_block :: "environment \<Rightarrow> 'o process_state \<Rightarrow> 'o process_state" where
  "translation_block env s =
     (let translator = QTranslator;
          (ok, translator', s1) = load env ''main_fr'' ''translations'' translator s;
          s2 = (if \<not> ok then qDebug ''Failed to load translation!'' s1 else s1)
      in installTranslator translator' s2)"

text \<open>Lines 27 to 29: the main window is constructed, registered and made an event filter.\<close>

definition window_block :: "'o process_state \<Rightarrow> 'o process_state" where
  "window_block s =
     (let (w, s1) = MainWindow_new s;
          s2 = setMainWindow w s1
      in installEventFilter w s2)"

definition main :: "environment \<Rightarrow> string list \<Rightarrow> 'o process_state \<Rightarrow> 'o process_state \<times> int option" where
  "main env argv s0 =
     (let s1 = setQtSurfaceFormat s0;
          s2 = hardware_block env s1;
          s3 = QApplication argv s2;
          s4 = translation_block env s3;
          s5 = window_block s4
      in exec env s5)"

subsection \<open>Reading the history\<close>

text \<open>The calls one run of \<open>main\<close> adds to the history, in order.\<close>

definition run_events :: "environment \<Rightarrow> string list \<Rightarrow> 'o process_state \<Rightarrow> event list" where
  "run_events env argv s0 = drop (length (history s0)) (history (fst (main env argv s0)))"

text \<open>
  \<open>happens_before a b tr\<close>: the call \<open>b\<close> is made in \<open>tr\<close>, and \<open>a\<close> has been made
  when \<open>b\<close> is made for the first time.
\<close>

definition happens_before :: "event \<Rightarrow> event \<Rightarrow> event list \<Rightarrow> bool" where
  "happens_before a b tr = (b \<in> set tr \<and> a \<in> set (takeWhile (\<lambda>e. e \<noteq> b) tr))"

fun is_load :: "event \<Rightarrow> bool" where
  "is_load (TranslatorLoad filename directory) = True"
| "is_load _ = False"

text \<open>
  The catalogues the application translates with: those held by the translators in its
  list. An empty translator is in the list and contributes none. Without an application
  object there is none either.
\<close>

definition installed_catalogues :: "'o process_state \<Rightarrow> (string \<times> string) list" where
  "installed_catalogues s =
     (case qApp s of
        None \<Rightarrow> []
      | Some a \<Rightarrow> List.map_filter catalogue (translators a))"

definition catalogue_installed :: "'o process_state \<Rightarrow> bool" where
  "catalogue_installed s = (installed_catalogues s \<noteq> [])"

subsection \<open>Concrete runs\<close>

text \<open>
  A process state as a fresh process has it, with a platform default configuration that
  trusts one certificate, and an environment built from the three answers that matter: the
  hardware check, the status of the certificate bundle and whether the catalogue loads.
  The toy parser reads one certificate per byte of the file.
\<close>

definition fresh_process :: "string process_state" where
  "fresh_process =
     \<lparr>surfaceFormatSet = False, attributes = {},
      defaultConfiguration = \<lparr>caCertificates = [Certificate ''platform''], otherSettings = ''TLS''\<rparr>,
      qApp = None, mainWindow = None, debugOutput = [], history = []\<rparr>"

definition world :: "bool \<Rightarrow> file_status \<Rightarrow> bool \<Rightarrow> environment" where
  "world eon bundle french =
     \<lparr>hardware_EON = eon,
      fileSystem = (\<lambda>path. if path = ''/usr/etc/tls/cert.pem'' then bundle else Missing),
      fromData = map (\<lambda>c. Certificate [c]),
      catalogueLoads = (\<lambda>filename directory. french),
      systemLocale = ''en_US'',
      eventLoopResult = Some 0\<rparr>"

section \<open>Properties\<close>

subsection \<open>What each block does to the state\<close>

lemmas call_defs =
  record_call_def setQtSurfaceFormat_def setAttribute_def getDefaultConfiguration_def
  setCaCertificates_def setDefaultConfiguration_def QApplication_def QTranslator_def
  load_def qDebug_def installTranslator_def MainWindow_new_def setMainWindow_def
  installEventFilter_def exec_def

lemma history_hardware_block:
  "history (hardware_block env s) = history s @
     (if hardware_EON env
      then [AttributeSet AA_ShareOpenGLContexts, DefaultConfigurationRead,
            CertificatesRead ''/usr/etc/tls/cert.pem'', DefaultConfigurationSet]
      else [])"
  by (simp add: hardware_block_def call_defs)

lemma history_translation_block:
  "history (translation_block env s) = history s @
     TranslatorLoad ''main_fr'' ''translations'' #
     (if catalogueLoads env ''main_fr'' ''translations'' then []
      else [DebugMessage ''Failed to load translation!'']) @
     [TranslatorInstalled]"
  by (simp add: translation_block_def call_defs)

lemma history_window_block:
  "history (window_block s) =
     history s @ [MainWindowConstructed, MainWindowSet, EventFilterInstalled]"
  by (simp add: window_block_def call_defs)

lemma run_events_eq:
  "run_events env argv s0 =
     SurfaceFormatSet #
     (if hardware_EON env
      then [AttributeSet AA_ShareOpenGLContexts, DefaultConfigurationRead,
            CertificatesRead ''/usr/etc/tls/cert.pem'', DefaultConfigurationSet]
      else []) @
     ApplicationConstructed argv # TranslatorLoad ''main_fr'' ''translations'' #
     (if catalogueLoads env ''main_fr'' ''translations'' then []
      else [DebugMessage ''Failed to load translation!'']) @
     [TranslatorInstalled, MainWindowConstructed, MainWindowSet, EventFilterInstalled,
      EventLoopEntered]"
  by (simp add: run_events_def main_def history_hardware_block history_translation_block
      history_window_block exec_def record_call_def QApplication_def setQtSurfaceFormat_def)

lemma defaultConfiguration_hardware_block:
  "defaultConfiguration (hardware_block env s) =
     (if hardware_EON env
      then (defaultConfiguration s)\<lparr>caCertificates := fromPath env ''/usr/etc/tls/cert.pem''\<rparr>
      else defaultConfiguration s)"
  by (simp add: hardware_block_def call_defs)

lemma attributes_hardware_block:
  "attributes (hardware_block env s) =
     (if hardware_EON env then insert AA_ShareOpenGLContexts (attributes s) else attributes s)"
  by (simp add: hardware_block_def call_defs)

lemma debugOutput_hardware_block: "debugOutput (hardware_block env s) = debugOutput s"
  by (simp add: hardware_block_def call_defs)

lemma defaultConfiguration_main:
  "defaultConfiguration (fst (main env argv s0)) = defaultConfiguration (hardware_block env s0)"
  by (simp add: main_def hardware_block_def window_block_def translation_block_def call_defs
      Let_def)

lemma attributes_main:
  "attributes (fst (main env argv s0)) = attributes (hardware_block env s0)"
  by (simp add: main_def hardware_block_def window_block_def translation_block_def call_defs
      Let_def)

lemma debugOutput_main:
  "debugOutput (fst (main env argv s0)) = debugOutput s0 @
     (if catalogueLoads env ''main_fr'' ''translations'' then []
      else [''Failed to load translation!''])"
  by (simp add: main_def hardware_block_def window_block_def translation_block_def call_defs
      Let_def)

lemma qApp_main:
  "qApp (fst (main env argv s0)) =
     Some \<lparr>arguments = argv,
           translators =
             [\<lparr>catalogue = (if catalogueLoads env ''main_fr'' ''translations''
                            then Some (''main_fr'', ''translations'') else None)\<rparr>],
           eventFilters = [MainWindow]\<rparr>"
  by (simp add: main_def hardware_block_def window_block_def translation_block_def call_defs
      Let_def)

lemma qApp_translation_block:
  "qApp (translation_block env (QApplication argv s)) =
     Some \<lparr>arguments = argv,
           translators =
             [\<lparr>catalogue = (if catalogueLoads env ''main_fr'' ''translations''
                            then Some (''main_fr'', ''translations'') else None)\<rparr>],
           eventFilters = []\<rparr>"
  by (simp add: translation_block_def call_defs Let_def)

lemma mainWindow_main: "mainWindow (fst (main env argv s0)) = Some MainWindow"
  by (simp add: main_def hardware_block_def window_block_def translation_block_def call_defs
      Let_def)

lemma exit_code_main: "snd (main env argv s0) = eventLoopResult env"
  by (simp add: main_def exec_def Let_def)

subsection \<open>The trust store\<close>

text \<open>
  Claim C1. On the target hardware, when the certificate bundle at
  \<^verbatim>\<open>/usr/etc/tls/cert.pem\<close> can be read and at least one certificate is parsed from
  it, the set of trusted certificates of the process-wide default TLS configuration after
  \<open>main\<close> is the set of the certificates parsed from that file.
\<close>

theorem trust_store_is_bundle:
  assumes "hardware_EON env"
    and "fileSystem env ''/usr/etc/tls/cert.pem'' = Readable bytes"
    and "fromData env bytes \<noteq> []"
  shows "set (caCertificates (defaultConfiguration (fst (main env argv s0)))) =
         set (fromData env bytes)"
  using assms
  by (simp add: defaultConfiguration_main defaultConfiguration_hardware_block fromPath_def)

theorem trust_store_is_bundle_witness:
  "hardware_EON (world True (Readable ''abc'') True) \<and>
   fileSystem (world True (Readable ''abc'') True) ''/usr/etc/tls/cert.pem'' = Readable ''abc'' \<and>
   fromData (world True (Readable ''abc'') True) ''abc'' \<noteq> [] \<and>
   set (caCertificates (defaultConfiguration
          (fst (main (world True (Readable ''abc'') True) [''ui''] fresh_process)))) =
     {Certificate ''a'', Certificate ''b'', Certificate ''c''}"
  using trust_store_is_bundle [of "world True (Readable ''abc'') True" "''abc''" "[''ui'']" fresh_process]
  by (simp add: world_def)

text \<open>
  Claim C2. Off the target hardware the guarded block does nothing: the GL
  context-sharing attribute is not set and the default TLS configuration is not replaced,
  so the process-wide default TLS configuration after the block, and after \<open>main\<close>, is
  the one from before.
\<close>

theorem off_target_nothing_replaced:
  assumes "\<not> hardware_EON env"
  shows "defaultConfiguration (hardware_block env s0) = defaultConfiguration s0 \<and>
         defaultConfiguration (fst (main env argv s0)) = defaultConfiguration s0 \<and>
         attributes (fst (main env argv s0)) = attributes s0 \<and>
         AttributeSet AA_ShareOpenGLContexts \<notin> set (run_events env argv s0) \<and>
         DefaultConfigurationSet \<notin> set (run_events env argv s0)"
  using assms
  by (simp add: defaultConfiguration_main defaultConfiguration_hardware_block attributes_main
      attributes_hardware_block run_events_eq)

theorem off_target_nothing_replaced_witness:
  "\<not> hardware_EON (world False (Readable ''abc'') True) \<and>
   defaultConfiguration (fst (main (world False (Readable ''abc'') True) [] fresh_process)) =
     \<lparr>caCertificates = [Certificate ''platform''], otherSettings = ''TLS''\<rparr> \<and>
   attributes (fst (main (world False (Readable ''abc'') True) [] fresh_process)) = {} \<and>
   AttributeSet AA_ShareOpenGLContexts
     \<notin> set (run_events (world False (Readable ''abc'') True) [] fresh_process)"
  using off_target_nothing_replaced [of "world False (Readable ''abc'') True" fresh_process "[]"]
  by (simp add: world_def fresh_process_def)

text \<open>
  Claim C3. On the target hardware, when the certificate bundle is missing, cannot be
  read, or yields no certificate, the guarded block still runs to its last call (it
  installs a configuration), writes nothing to the debug output, and the trusted
  certificates of the installed default configuration are the empty set, also after
  \<open>main\<close>.
\<close>

theorem unusable_bundle_empty_trust_store:
  assumes "hardware_EON env"
    and "case fileSystem env ''/usr/etc/tls/cert.pem'' of
           Missing \<Rightarrow> True | Unreadable \<Rightarrow> True | Readable bytes \<Rightarrow> fromData env bytes = []"
  shows "set (caCertificates (defaultConfiguration (hardware_block env s))) = {} \<and>
         debugOutput (hardware_block env s) = debugOutput s \<and>
         history (hardware_block env s) = history s @
           [AttributeSet AA_ShareOpenGLContexts, DefaultConfigurationRead,
            CertificatesRead ''/usr/etc/tls/cert.pem'', DefaultConfigurationSet] \<and>
         set (caCertificates (defaultConfiguration (fst (main env argv s)))) = {}"
  using assms
  by (simp add: defaultConfiguration_main defaultConfiguration_hardware_block fromPath_def
      debugOutput_hardware_block history_hardware_block split: file_status.splits)

theorem unusable_bundle_empty_trust_store_witness:
  "hardware_EON (world True Missing True) \<and>
   fileSystem (world True Missing True) ''/usr/etc/tls/cert.pem'' = Missing \<and>
   fileSystem (world True Unreadable True) ''/usr/etc/tls/cert.pem'' = Unreadable \<and>
   fileSystem (world True (Readable []) True) ''/usr/etc/tls/cert.pem'' = Readable [] \<and>
   fromData (world True (Readable []) True) [] = [] \<and>
   caCertificates (defaultConfiguration (fst (main (world True Missing True) [] fresh_process))) = [] \<and>
   caCertificates (defaultConfiguration (fst (main (world True Unreadable True) [] fresh_process))) = [] \<and>
   caCertificates (defaultConfiguration (fst (main (world True (Readable []) True) [] fresh_process))) = [] \<and>
   debugOutput (hardware_block (world True Missing True) fresh_process) = []"
  using unusable_bundle_empty_trust_store [of "world True Missing True" fresh_process "[]"]
    unusable_bundle_empty_trust_store [of "world True Unreadable True" fresh_process "[]"]
    unusable_bundle_empty_trust_store [of "world True (Readable []) True" fresh_process "[]"]
  by (simp add: world_def fresh_process_def)

text \<open>
  Claim C9. On the target hardware the installed default TLS configuration is the prior
  default with its list of trusted certificates replaced: every other setting is the one
  of the prior default.
\<close>

theorem only_trusted_certificates_change:
  assumes "hardware_EON env"
  shows "otherSettings (defaultConfiguration (fst (main env argv s0))) =
           otherSettings (defaultConfiguration s0) \<and>
         defaultConfiguration (fst (main env argv s0)) =
           (defaultConfiguration s0)\<lparr>caCertificates := fromPath env ''/usr/etc/tls/cert.pem''\<rparr>"
  using assms
  by (simp add: defaultConfiguration_main defaultConfiguration_hardware_block)

theorem only_trusted_certificates_change_witness:
  "hardware_EON (world True (Readable ''xy'') False) \<and>
   defaultConfiguration (fst (main (world True (Readable ''xy'') False) [] fresh_process)) =
     \<lparr>caCertificates = [Certificate ''x'', Certificate ''y''], otherSettings = ''TLS''\<rparr>"
  using only_trusted_certificates_change [of "world True (Readable ''xy'') False" "[]" fresh_process]
  by (simp add: world_def fresh_process_def fromPath_def)

subsection \<open>The translator\<close>

text \<open>
  Claim C4. The catalogue is installed into the application exactly when its load
  succeeds. After a successful load the application translates with the catalogue
  \<^verbatim>\<open>main_fr\<close>, and with nothing else. After a failed load the translator that line 25
  installs is empty, so the application has no catalogue and the default text remains.
\<close>

theorem catalogue_installed_iff_loaded:
  "catalogue_installed (fst (main env argv s0)) =
     catalogueLoads env ''main_fr'' ''translations'' \<and>
   installed_catalogues (fst (main env argv s0)) =
     (if catalogueLoads env ''main_fr'' ''translations''
      then [(''main_fr'', ''translations'')] else [])"
  by (simp add: catalogue_installed_def installed_catalogues_def qApp_main map_filter_simps)

theorem catalogue_installed_iff_loaded_witness:
  "catalogueLoads (world True Missing True) ''main_fr'' ''translations'' \<and>
   catalogue_installed (fst (main (world True Missing True) [] fresh_process)) \<and>
   installed_catalogues (fst (main (world True Missing True) [] fresh_process)) =
     [(''main_fr'', ''translations'')] \<and>
   \<not> catalogueLoads (world True Missing False) ''main_fr'' ''translations'' \<and>
   \<not> catalogue_installed (fst (main (world True Missing False) [] fresh_process)) \<and>
   installed_catalogues (fst (main (world True Missing False) [] fresh_process)) = []"
  using catalogue_installed_iff_loaded [of "world True Missing True" "[]" fresh_process]
    catalogue_installed_iff_loaded [of "world True Missing False" "[]" fresh_process]
  by (simp add: world_def)

text \<open>
  Claim C10. Whatever the process arguments and the environment (the system locale
  included), one run makes exactly one load attempt, for the catalogue \<^verbatim>\<open>main_fr\<close>
  with the directory \<^verbatim>\<open>translations\<close>.
\<close>

theorem load_is_fixed:
  "filter is_load (run_events env argv s0) = [TranslatorLoad ''main_fr'' ''translations'']"
  by (simp add: run_events_eq)

theorem load_is_fixed_witness:
  "filter is_load (run_events (world True Missing False\<lparr>systemLocale := ''de_DE''\<rparr>)
       [''ui'', ''--lang'', ''de''] fresh_process) =
     [TranslatorLoad ''main_fr'' ''translations'']"
  using load_is_fixed [of "world True Missing False\<lparr>systemLocale := ''de_DE''\<rparr>"
      "[''ui'', ''--lang'', ''de'']" fresh_process]
  by simp

text \<open>
  Claim C6. In every run in which the load of the catalogue fails, the message
  \<^verbatim>\<open>Failed to load translation!\<close> is written to the debug output, and from the load
  attempt on the calls are: the message, the installation of the translator, the
  construction of the main window, its registration, its installation as event filter and
  the entry of the event loop. \<open>main\<close> has no other outcome there: its result is the
  event loop's.
\<close>

theorem failed_load_is_logged_and_run_continues:
  assumes "\<not> catalogueLoads env ''main_fr'' ''translations''"
  shows "debugOutput (fst (main env argv s0)) = debugOutput s0 @ [''Failed to load translation!''] \<and>
         dropWhile (\<lambda>e. e \<noteq> TranslatorLoad ''main_fr'' ''translations'') (run_events env argv s0) =
           [TranslatorLoad ''main_fr'' ''translations'',
            DebugMessage ''Failed to load translation!'', TranslatorInstalled,
            MainWindowConstructed, MainWindowSet, EventFilterInstalled, EventLoopEntered] \<and>
         mainWindow (fst (main env argv s0)) = Some MainWindow \<and>
         map_option eventFilters (qApp (fst (main env argv s0))) = Some [MainWindow] \<and>
         snd (main env argv s0) = eventLoopResult env"
  using assms
  by (simp add: debugOutput_main run_events_eq mainWindow_main qApp_main exit_code_main)

theorem failed_load_is_logged_and_run_continues_witness:
  "\<not> catalogueLoads (world False Missing False) ''main_fr'' ''translations'' \<and>
   debugOutput (fst (main (world False Missing False) [] fresh_process)) =
     [''Failed to load translation!''] \<and>
   mainWindow (fst (main (world False Missing False) [] fresh_process)) = Some MainWindow \<and>
   snd (main (world False Missing False) [] fresh_process) = Some 0"
  using failed_load_is_logged_and_run_continues [of "world False Missing False" "[]" fresh_process]
  by (simp add: world_def fresh_process_def)

subsection \<open>The order of the calls\<close>

text \<open>
  Claim C5. On the target hardware the GL context-sharing attribute is set before the
  application object is constructed, and it is set in the state the constructor runs in.
\<close>

theorem attribute_set_before_application:
  assumes "hardware_EON env"
  shows "happens_before (AttributeSet AA_ShareOpenGLContexts) (ApplicationConstructed argv)
           (run_events env argv s0) \<and>
         AA_ShareOpenGLContexts \<in> attributes (hardware_block env (setQtSurfaceFormat s0))"
  using assms
  by (simp add: run_events_eq happens_before_def attributes_hardware_block)

theorem attribute_set_before_application_witness:
  "hardware_EON (world True Missing True) \<and>
   happens_before (AttributeSet AA_ShareOpenGLContexts) (ApplicationConstructed [''ui''])
     (run_events (world True Missing True) [''ui''] fresh_process)"
  using attribute_set_before_application [of "world True Missing True" "[''ui'']" fresh_process]
  by (simp add: world_def)

text \<open>
  Claim C7. In every run the translator is installed into the application before the main
  window is constructed: the call precedes the construction, and the translator is in the
  application's list of translators in the state the window is constructed in, which is
  the state after the translation block.
\<close>

theorem translator_installed_before_window:
  "happens_before TranslatorInstalled MainWindowConstructed (run_events env argv s0) \<and>
   main env argv s0 =
     exec env (window_block
       (translation_block env (QApplication argv (hardware_block env (setQtSurfaceFormat s0))))) \<and>
   map_option translators
     (qApp (translation_block env (QApplication argv (hardware_block env (setQtSurfaceFormat s0))))) =
     Some [\<lparr>catalogue = (if catalogueLoads env ''main_fr'' ''translations''
                         then Some (''main_fr'', ''translations'') else None)\<rparr>] \<and>
   MainWindowConstructed \<notin> set (drop (length (history s0)) (history
     (translation_block env (QApplication argv (hardware_block env (setQtSurfaceFormat s0))))))"
proof -
  let ?s = "translation_block env (QApplication argv (hardware_block env (setQtSurfaceFormat s0)))"
  have order: "happens_before TranslatorInstalled MainWindowConstructed (run_events env argv s0)"
    by (simp add: run_events_eq happens_before_def)
  have run: "main env argv s0 = exec env (window_block ?s)"
    by (simp add: main_def)
  have installed: "map_option translators (qApp ?s) =
      Some [\<lparr>catalogue = (if catalogueLoads env ''main_fr'' ''translations''
                          then Some (''main_fr'', ''translations'') else None)\<rparr>]"
    by (simp add: qApp_translation_block)
  have "history ?s = history s0 @
      SurfaceFormatSet #
      (if hardware_EON env
       then [AttributeSet AA_ShareOpenGLContexts, DefaultConfigurationRead,
             CertificatesRead ''/usr/etc/tls/cert.pem'', DefaultConfigurationSet]
       else []) @
      ApplicationConstructed argv # TranslatorLoad ''main_fr'' ''translations'' #
      (if catalogueLoads env ''main_fr'' ''translations'' then []
       else [DebugMessage ''Failed to load translation!'']) @
      [TranslatorInstalled]"
    by (simp add: history_translation_block history_hardware_block QApplication_def
        setQtSurfaceFormat_def record_call_def)
  then have no_window: "MainWindowConstructed \<notin> set (drop (length (history s0)) (history ?s))"
    by simp
  from order run installed no_window show ?thesis
    by blast
qed

theorem translator_installed_before_window_witness:
  "happens_before TranslatorInstalled MainWindowConstructed
     (run_events (world False Missing True) [] fresh_process) \<and>
   map_option translators
     (qApp (translation_block (world False Missing True)
        (QApplication [] (hardware_block (world False Missing True)
           (setQtSurfaceFormat fresh_process))))) =
     Some [\<lparr>catalogue = Some (''main_fr'', ''translations'')\<rparr>]"
  using translator_installed_before_window [of "world False Missing True" "[]" fresh_process]
  by (simp add: world_def)

text \<open>
  Claim C8. In every run the main window is registered as the current main window and
  installed as an event filter of the application before the event loop is entered: both
  calls precede the entry of the loop, and both registrations hold in the state in which
  the loop is entered.
\<close>

theorem window_registered_before_loop:
  "happens_before MainWindowSet EventLoopEntered (run_events env argv s0) \<and>
   happens_before EventFilterInstalled EventLoopEntered (run_events env argv s0) \<and>
   mainWindow (fst (main env argv s0)) = Some MainWindow \<and>
   map_option eventFilters (qApp (fst (main env argv s0))) = Some [MainWindow]"
  by (simp add: run_events_eq happens_before_def mainWindow_main qApp_main)

theorem window_registered_before_loop_witness:
  "happens_before MainWindowSet EventLoopEntered
     (run_events (world True Unreadable False) [] fresh_process) \<and>
   happens_before EventFilterInstalled EventLoopEntered
     (run_events (world True Unreadable False) [] fresh_process)"
  using window_registered_before_loop [of "world True Unreadable False" "[]" fresh_process]
  by simp

end
